theory Spec2Isabelle
  imports Complex_Main "HOL-Library.Word"
begin

section \<open>AP\_MotorsHeli\_Single: motor control class for traditional heli\<close>

text \<open>
  A shallow embedding of \<^verbatim>\<open>libraries/AP_Motors/AP_MotorsHeli_Single.h\<close>.
  A C++ \<^verbatim>\<open>int16_t\<close> is a 16-bit word read as two's complement by \<open>sint\<close>;
  comparisons promote both sides to \<^verbatim>\<open>int\<close>, so they are comparisons of the
  \<open>sint\<close> values. Every method is a function from the vehicle state (the object
  and the output channels it can write) to its result and the state afterwards.
\<close>

subsection \<open>Machine types and the header's constants\<close>

type_synonym int8 = "8 word"
type_synonym int16 = "16 word"
type_synonym uint16 = "16 word"

text \<open>
  The outputs the header names: the four servos the object holds references to
  (\<^verbatim>\<open>_servo_1\<close> to \<^verbatim>\<open>_servo_4\<close>, the last one the tail servo), the aux
  channel \<^verbatim>\<open>CH_7\<close> and the rotor speed controller's channel \<^verbatim>\<open>CH_8\<close>.
\<close>

datatype channel = SERVO_1 | SERVO_2 | SERVO_3 | SERVO_4 | CH_7 | CH_8

type_synonym rcout = "channel \<rightharpoonup> int16"

definition AP_MOTORS_HELI_SINGLE_RSC :: channel where
  "AP_MOTORS_HELI_SINGLE_RSC = CH_8"

definition AP_MOTORS_HELI_SINGLE_AUX :: channel where
  "AP_MOTORS_HELI_SINGLE_AUX = CH_7"

definition AP_MOTORS_HELI_SINGLE_SERVO1_POS :: int where
  "AP_MOTORS_HELI_SINGLE_SERVO1_POS = -60"

definition AP_MOTORS_HELI_SINGLE_SERVO2_POS :: int where
  "AP_MOTORS_HELI_SINGLE_SERVO2_POS = 60"

definition AP_MOTORS_HELI_SINGLE_SERVO3_POS :: int where
  "AP_MOTORS_HELI_SINGLE_SERVO3_POS = 180"

definition AP_MOTORS_HELI_SINGLE_SWASH_CCPM :: int where
  "AP_MOTORS_HELI_SINGLE_SWASH_CCPM = 0"

definition AP_MOTORS_HELI_SINGLE_SWASH_H1 :: int where
  "AP_MOTORS_HELI_SINGLE_SWASH_H1 = 1"

definition AP_MOTORS_HELI_SINGLE_TAILTYPE_SERVO :: int where
  "AP_MOTORS_HELI_SINGLE_TAILTYPE_SERVO = 0"

definition AP_MOTORS_HELI_SINGLE_TAILTYPE_SERVO_EXTGYRO :: int where
  "AP_MOTORS_HELI_SINGLE_TAILTYPE_SERVO_EXTGYRO = 1"

definition AP_MOTORS_HELI_SINGLE_TAILTYPE_DIRECTDRIVE_VARPITCH :: int where
  "AP_MOTORS_HELI_SINGLE_TAILTYPE_DIRECTDRIVE_VARPITCH = 2"

definition AP_MOTORS_HELI_SINGLE_TAILTYPE_DIRECTDRIVE_FIXEDPITCH :: int where
  "AP_MOTORS_HELI_SINGLE_TAILTYPE_DIRECTDRIVE_FIXEDPITCH = 3"

definition AP_MOTORS_HELI_SINGLE_TAIL_RAMP_INCREMENT :: int where
  "AP_MOTORS_HELI_SINGLE_TAIL_RAMP_INCREMENT = 5"

subsection \<open>The rotor speed controller (AP\_MotorsHeli\_RSC)\<close>

text \<open>
  Modelled from the spec: the class \<^verbatim>\<open>AP_MotorsHeli_RSC\<close> is declared in
  \<^verbatim>\<open>AP_MotorsHeli_RSC.h\<close>, which is not among the sources. Its state is the
  rotor speed state of the data model: the owned output channel, the desired speed, the
  estimated speed, the critical speed threshold, the internal ramp position and the fixed
  increment of the ramp per tick.
\<close>

record AP_MotorsHeli_RSC =
  rsc_channel :: channel
  desired_speed :: int16
  estimated_speed :: int16
  critical_speed :: int16
  ramp_output :: int16
  ramp_increment :: int16

text \<open>
  Modelled from the spec: the three getters the header calls on a controller are const
  methods of the missing class; each returns the value of the data model it is named
  after.
\<close>

definition get_estimated_speed :: "AP_MotorsHeli_RSC \<Rightarrow> int16" where
  "get_estimated_speed r = estimated_speed r"

definition get_desired_speed :: "AP_MotorsHeli_RSC \<Rightarrow> int16" where
  "get_desired_speed r = desired_speed r"

definition get_critical_speed :: "AP_MotorsHeli_RSC \<Rightarrow> int16" where
  "get_critical_speed r = critical_speed r"

text \<open>
  Modelled from the spec: \<^verbatim>\<open>set_desired_speed(v)\<close> of the missing class clamps
  \<open>v\<close> to [0, 1000] and stores it as the ramp target; it does not change the output.
\<close>

definition set_desired_speed :: "int16 \<Rightarrow> AP_MotorsHeli_RSC \<Rightarrow> AP_MotorsHeli_RSC" where
  "set_desired_speed v r =
     r\<lparr>desired_speed := (if sint v < 0 then 0 else if 1000 < sint v then 1000 else v)\<rparr>"

text \<open>
  Modelled from the spec: \<^verbatim>\<open>update()\<close> of the missing class, called once per
  tick, advances the internal ramp value toward the desired value by at most one fixed
  increment and writes the ramp value to the owned output channel. \<open>ramp_toward\<close> is
  the advance, computed on \<^verbatim>\<open>int\<close> as C++ promotes the operands.
\<close>

definition ramp_toward :: "int \<Rightarrow> int \<Rightarrow> int \<Rightarrow> int" where
  "ramp_toward inc target pos =
     (if pos < target then min target (pos + inc)
      else if target < pos then max target (pos - inc)
      else pos)"

definition update :: "AP_MotorsHeli_RSC \<Rightarrow> rcout \<Rightarrow> AP_MotorsHeli_RSC \<times> rcout" where
  "update r out =
     (let pos = word_of_int (ramp_toward (sint (ramp_increment r)) (sint (desired_speed r))
                  (sint (ramp_output r)))
      in (r\<lparr>ramp_output := pos\<rparr>, out(rsc_channel r \<mapsto> pos)))"

text \<open>The controller and its channel after \<open>n\<close> successive calls of \<open>update\<close>.\<close>

fun ticks :: "nat \<Rightarrow> AP_MotorsHeli_RSC \<Rightarrow> rcout \<Rightarrow> AP_MotorsHeli_RSC \<times> rcout" where
  "ticks 0 r out = (r, out)"
| "ticks (Suc n) r out = (case ticks n r out of (r', out') \<Rightarrow> update r' out')"

definition ramp_after :: "nat \<Rightarrow> AP_MotorsHeli_RSC \<Rightarrow> rcout \<Rightarrow> int" where
  "ramp_after n r out = sint (ramp_output (fst (ticks n r out)))"

text \<open>
  A controller in the documented ranges: a ramp increment that is not negative, and a
  ramp position and a desired speed in 0 to 1000.
\<close>

definition rsc_ok :: "AP_MotorsHeli_RSC \<Rightarrow> bool" where
  "rsc_ok r =
     (0 \<le> sint (ramp_increment r)
      \<and> 0 \<le> sint (ramp_output r) \<and> sint (ramp_output r) \<le> 1000
      \<and> 0 \<le> sint (desired_speed r) \<and> sint (desired_speed r) \<le> 1000)"

subsection \<open>The object and the vehicle state\<close>

text \<open>
  Modelled from the spec: the base class \<^verbatim>\<open>AP_MotorsHeli\<close> is declared in
  \<^verbatim>\<open>AP_MotorsHeli.h\<close>, which is not among the sources. Of its configuration the
  spec names whether the main rotor is configured to require spin-up.
\<close>

record AP_MotorsHeli =
  m_spin_up_required :: bool

text \<open>
  The members of \<^verbatim>\<open>AP_MotorsHeli_Single\<close> (a leading underscore is written
  \<open>m_\<close>). \<^verbatim>\<open>AP_Int16\<close> and \<^verbatim>\<open>AP_Int8\<close> parameters hold an
  \<^verbatim>\<open>int16_t\<close> and an \<^verbatim>\<open>int8_t\<close>; the \<^verbatim>\<open>AP_Float\<close> is idealised as
  a real. The servo references are the output channels of the vehicle state.
\<close>

record AP_MotorsHeli_Single = AP_MotorsHeli +
  m_main_rotor :: AP_MotorsHeli_RSC
  m_tail_rotor :: AP_MotorsHeli_RSC
  m_servo1_pos :: int16
  m_servo2_pos :: int16
  m_servo3_pos :: int16
  m_tail_type :: int16
  m_swash_type :: int8
  m_ext_gyro_gain :: int16
  m_phase_angle :: int16
  m_collective_yaw_effect :: real
  m_flybar_mode :: int8
  m_direct_drive_tailspeed :: int16

record vehicle =
  motors :: AP_MotorsHeli_Single
  outputs :: rcout

subsection \<open>The inline methods of the header\<close>

definition get_estimated_rotor_speed :: "vehicle \<Rightarrow> int16 \<times> vehicle" where
  "get_estimated_rotor_speed v = (get_estimated_speed (m_main_rotor (motors v)), v)"

definition get_desired_rotor_speed :: "vehicle \<Rightarrow> int16 \<times> vehicle" where
  "get_desired_rotor_speed v = (get_desired_speed (m_main_rotor (motors v)), v)"

definition rotor_speed_above_critical :: "vehicle \<Rightarrow> bool \<times> vehicle" where
  "rotor_speed_above_critical v =
     (sint (get_critical_speed (m_main_rotor (motors v)))
        < sint (get_estimated_speed (m_main_rotor (motors v))), v)"

definition tail_type :: "vehicle \<Rightarrow> int16 \<times> vehicle" where
  "tail_type v = (m_tail_type (motors v), v)"

definition ext_gyro_gain :: "vehicle \<Rightarrow> int16 \<times> vehicle" where
  "ext_gyro_gain v = (m_ext_gyro_gain (motors v), v)"

text \<open>The overload \<^verbatim>\<open>void ext_gyro_gain(int16_t pwm)\<close>.\<close>

definition ext_gyro_gain_set :: "int16 \<Rightarrow> vehicle \<Rightarrow> vehicle" where
  "ext_gyro_gain_set pwm v = v\<lparr>motors := (motors v)\<lparr>m_ext_gyro_gain := pwm\<rparr>\<rparr>"

text \<open>The \<^verbatim>\<open>AP_Int8\<close> converts to \<^verbatim>\<open>bool\<close>: true when it is not zero.\<close>

definition has_flybar :: "vehicle \<Rightarrow> bool \<times> vehicle" where
  "has_flybar v = (m_flybar_mode (motors v) \<noteq> 0, v)"

definition get_phase_angle :: "vehicle \<Rightarrow> int16 \<times> vehicle" where
  "get_phase_angle v = (m_phase_angle (motors v), v)"

definition supports_yaw_passthrough :: "vehicle \<Rightarrow> bool \<times> vehicle" where
  "supports_yaw_passthrough v =
     (sint (m_tail_type (motors v)) = AP_MOTORS_HELI_SINGLE_TAILTYPE_SERVO_EXTGYRO, v)"

text \<open>
  Modelled from the spec: the body of \<^verbatim>\<open>get_motor_mask\<close> is in
  \<^verbatim>\<open>AP_MotorsHeli_Single.cpp\<close>, which is not among the sources. The spec has it
  return which physical output channels this configuration claims, as a pure read; the
  mapping \<open>claimed\<close> from the configuration to the bitmask is a parameter.
\<close>

definition get_motor_mask ::
  "(AP_MotorsHeli_Single \<Rightarrow> uint16) \<Rightarrow> vehicle \<Rightarrow> uint16 \<times> vehicle" where
  "get_motor_mask claimed v = (claimed (motors v), v)"

subsection \<open>Methods the header only declares\<close>

text \<open>
  Modelled from the spec: the body of \<^verbatim>\<open>allow_arming\<close> is in
  \<^verbatim>\<open>AP_MotorsHeli_Single.cpp\<close>, which is not among the sources. The spec has it
  true only when the main rotor's estimated speed exceeds its critical threshold or the
  rotor is configured to not require spin-up.
\<close>

definition allow_arming :: "vehicle \<Rightarrow> bool \<times> vehicle" where
  "allow_arming v =
     (sint (get_critical_speed (m_main_rotor (motors v)))
        < sint (get_estimated_speed (m_main_rotor (motors v)))
      \<or> \<not> m_spin_up_required (motors v), v)"

text \<open>
  Modelled from the spec: the body of \<^verbatim>\<open>move_yaw\<close> is in
  \<^verbatim>\<open>AP_MotorsHeli_Single.cpp\<close>, which is not among the sources. The spec's tail
  control law \<open>compute(yaw_command, collective_feed_forward)\<close> dispatches on the tail
  type: the plain servo outputs the clamped sum to the tail servo; the servo with external
  gyro does the same and writes the gyro gain to the aux channel; direct-drive variable
  pitch does the same mixing and holds the tail rotor's controller at the configured
  speed; direct-drive fixed pitch feeds the yaw command into the tail rotor's controller,
  and the actuator command is that desired speed. An unknown tail type falls back to the
  plain servo law. The bounds \<open>lo\<close> and \<open>hi\<close> of the actuator range are parameters.
\<close>

datatype tail_variant = Servo | ServoExtGyro | DirectDriveVarPitch | DirectDriveFixedPitch

definition tail_variant_of :: "int16 \<Rightarrow> tail_variant" where
  "tail_variant_of t =
     (if sint t = AP_MOTORS_HELI_SINGLE_TAILTYPE_SERVO_EXTGYRO then ServoExtGyro
      else if sint t = AP_MOTORS_HELI_SINGLE_TAILTYPE_DIRECTDRIVE_VARPITCH
        then DirectDriveVarPitch
      else if sint t = AP_MOTORS_HELI_SINGLE_TAILTYPE_DIRECTDRIVE_FIXEDPITCH
        then DirectDriveFixedPitch
      else Servo)"

definition constrain :: "int \<Rightarrow> int \<Rightarrow> int \<Rightarrow> int" where
  "constrain lo hi x = (if x < lo then lo else if hi < x then hi else x)"

definition move_yaw :: "int \<Rightarrow> int \<Rightarrow> int16 \<Rightarrow> int16 \<Rightarrow> vehicle \<Rightarrow> int16 \<times> vehicle" where
  "move_yaw lo hi yaw_command collective_feed_forward v =
     (let m = motors v;
          cmd = word_of_int (constrain lo hi (sint yaw_command + sint collective_feed_forward))
      in case tail_variant_of (m_tail_type m) of
           Servo \<Rightarrow> (cmd, v\<lparr>outputs := (outputs v)(SERVO_4 \<mapsto> cmd)\<rparr>)
         | ServoExtGyro \<Rightarrow>
             (cmd, v\<lparr>outputs := (outputs v)(SERVO_4 \<mapsto> cmd,
                                        AP_MOTORS_HELI_SINGLE_AUX \<mapsto> m_ext_gyro_gain m)\<rparr>)
         | DirectDriveVarPitch \<Rightarrow>
             (cmd, v\<lparr>motors := m\<lparr>m_tail_rotor :=
                                 set_desired_speed (m_direct_drive_tailspeed m) (m_tail_rotor m)\<rparr>,
                     outputs := (outputs v)(SERVO_4 \<mapsto> cmd)\<rparr>)
         | DirectDriveFixedPitch \<Rightarrow>
             (let t = set_desired_speed yaw_command (m_tail_rotor m)
              in (desired_speed t, v\<lparr>motors := m\<lparr>m_tail_rotor := t\<rparr>\<rparr>)))"

subsection \<open>Concrete states used as inputs\<close>

definition rsc0 :: AP_MotorsHeli_RSC where
  "rsc0 = \<lparr>rsc_channel = CH_8, desired_speed = 0, estimated_speed = 0,
     critical_speed = 500, ramp_output = 0, ramp_increment = 5\<rparr>"

definition heli0 :: AP_MotorsHeli_Single where
  "heli0 = \<lparr>m_spin_up_required = True, m_main_rotor = rsc0, m_tail_rotor = rsc0\<lparr>rsc_channel := CH_7\<rparr>,
     m_servo1_pos = -60, m_servo2_pos = 60, m_servo3_pos = 180,
     m_tail_type = 0, m_swash_type = 0, m_ext_gyro_gain = 350, m_phase_angle = 0,
     m_collective_yaw_effect = 0, m_flybar_mode = 1, m_direct_drive_tailspeed = 500\<rparr>"

definition vehicle0 :: vehicle where
  "vehicle0 = \<lparr>motors = heli0, outputs = Map.empty\<rparr>"

text \<open>The main rotor's estimate set to \<open>e\<close>, everything else as in \<open>vehicle0\<close>.\<close>

definition vehicle_at :: "int16 \<Rightarrow> vehicle" where
  "vehicle_at e = vehicle0\<lparr>motors := heli0\<lparr>m_main_rotor := rsc0\<lparr>estimated_speed := e\<rparr>\<rparr>\<rparr>"

section \<open>Properties of the inline methods\<close>

lemma sint16_eq_1: "(sint (w :: int16) = 1) = (w = 1)"
  using word_eq_iff_signed [where ?'a = int, of w 1] by simp

text \<open>
  C1, as the code has it: \<^verbatim>\<open>rotor_speed_above_critical()\<close> is true exactly when
  the main rotor's estimated speed is strictly greater than its critical speed. It is
  false when the estimate is below the threshold and also when the two are equal.
\<close>

theorem rotor_speed_above_critical_strict:
  "fst (rotor_speed_above_critical v) =
     (sint (critical_speed (m_main_rotor (motors v)))
        < sint (estimated_speed (m_main_rotor (motors v))))
   \<and> (estimated_speed (m_main_rotor (motors v)) = critical_speed (m_main_rotor (motors v))
        \<longrightarrow> \<not> fst (rotor_speed_above_critical v))"
  by (simp add: rotor_speed_above_critical_def get_critical_speed_def get_estimated_speed_def)

text \<open>With the critical speed 500: false at the estimate 500, true at 501.\<close>

theorem rotor_speed_above_critical_strict_witness:
  "estimated_speed (m_main_rotor (motors (vehicle_at 500)))
     = critical_speed (m_main_rotor (motors (vehicle_at 500)))
   \<and> \<not> fst (rotor_speed_above_critical (vehicle_at 500))
   \<and> fst (rotor_speed_above_critical (vehicle_at 501))"
  using rotor_speed_above_critical_strict [of "vehicle_at 500"]
    rotor_speed_above_critical_strict [of "vehicle_at 501"]
  by (simp add: vehicle_at_def vehicle0_def heli0_def rsc0_def)

text \<open>
  C1 as the claim states it fails at the boundary: with estimated speed 500 and critical
  speed 500 the estimate is not strictly below the threshold, and the method returns
  false.
\<close>

theorem rotor_speed_above_critical_boundary_counterexample:
  "\<not> (sint (estimated_speed (m_main_rotor (motors (vehicle_at 500))))
         < sint (critical_speed (m_main_rotor (motors (vehicle_at 500)))))
   \<and> fst (rotor_speed_above_critical (vehicle_at 500)) = False"
  by (simp add: rotor_speed_above_critical_def get_critical_speed_def get_estimated_speed_def
      vehicle_at_def vehicle0_def heli0_def rsc0_def)

text \<open>
  C7: \<^verbatim>\<open>supports_yaw_passthrough()\<close> is true if and only if the configured tail
  type is the servo-with-external-gyro value 1; it is false for every other value of the
  parameter, the three other variants and the unknown ones alike.
\<close>

theorem supports_yaw_passthrough_iff:
  "fst (supports_yaw_passthrough v) = (m_tail_type (motors v) = 1)
   \<and> AP_MOTORS_HELI_SINGLE_TAILTYPE_SERVO_EXTGYRO = 1"
  by (simp add: supports_yaw_passthrough_def AP_MOTORS_HELI_SINGLE_TAILTYPE_SERVO_EXTGYRO_def
      sint16_eq_1)

text \<open>
  C8: every exposed query returns the vehicle state it was given: the object, with both
  rotor speed controllers and every configuration member, and the output channels.
\<close>

theorem queries_leave_state_unchanged:
  "snd (get_estimated_rotor_speed v) = v
   \<and> snd (get_desired_rotor_speed v) = v
   \<and> snd (rotor_speed_above_critical v) = v
   \<and> snd (tail_type v) = v
   \<and> snd (ext_gyro_gain v) = v
   \<and> snd (has_flybar v) = v
   \<and> snd (get_phase_angle v) = v
   \<and> snd (supports_yaw_passthrough v) = v
   \<and> snd (get_motor_mask claimed v) = v"
  by (simp add: get_estimated_rotor_speed_def get_desired_rotor_speed_def
      rotor_speed_above_critical_def tail_type_def ext_gyro_gain_def has_flybar_def
      get_phase_angle_def supports_yaw_passthrough_def get_motor_mask_def)

text \<open>
  C9: for every 16-bit value \<open>pwm\<close>, the getter after the setter returns \<open>pwm\<close>
  itself: the setter neither clamps nor validates. It changes no other member and no
  output channel.
\<close>

theorem ext_gyro_gain_set_get:
  "fst (ext_gyro_gain (ext_gyro_gain_set pwm v)) = pwm
   \<and> ext_gyro_gain_set pwm v = v\<lparr>motors := (motors v)\<lparr>m_ext_gyro_gain := pwm\<rparr>\<rparr>
   \<and> outputs (ext_gyro_gain_set pwm v) = outputs v"
  by (simp add: ext_gyro_gain_def ext_gyro_gain_set_def)

text \<open>
  C10: the three rotor-speed queries read the main rotor's controller only: replacing the
  tail rotor's controller by any other leaves all three results as they were.
\<close>

theorem rotor_queries_ignore_tail_rotor:
  "fst (get_estimated_rotor_speed (v\<lparr>motors := (motors v)\<lparr>m_tail_rotor := t\<rparr>\<rparr>))
     = fst (get_estimated_rotor_speed v)
   \<and> fst (get_desired_rotor_speed (v\<lparr>motors := (motors v)\<lparr>m_tail_rotor := t\<rparr>\<rparr>))
     = fst (get_desired_rotor_speed v)
   \<and> fst (rotor_speed_above_critical (v\<lparr>motors := (motors v)\<lparr>m_tail_rotor := t\<rparr>\<rparr>))
     = fst (rotor_speed_above_critical v)"
  by (simp add: get_estimated_rotor_speed_def get_desired_rotor_speed_def
      rotor_speed_above_critical_def)

section \<open>The ramp of the rotor speed controller\<close>

lemma sint16_of_int: "- 32768 \<le> x \<Longrightarrow> x < 32768 \<Longrightarrow> sint (word_of_int x :: int16) = x"
  by (simp add: signed_of_int signed_take_bit_int_eq_self)

lemma ramp_toward_up:
  "0 \<le> inc \<Longrightarrow> p \<le> t \<Longrightarrow> p \<le> ramp_toward inc t p \<and> ramp_toward inc t p \<le> t"
  by (simp add: ramp_toward_def)

lemma ramp_toward_down:
  "0 \<le> inc \<Longrightarrow> t \<le> p \<Longrightarrow> t \<le> ramp_toward inc t p \<and> ramp_toward inc t p \<le> p"
  by (simp add: ramp_toward_def)

lemma ramp_toward_range:
  "0 \<le> inc \<Longrightarrow> 0 \<le> p \<Longrightarrow> p \<le> 1000 \<Longrightarrow> 0 \<le> t \<Longrightarrow> t \<le> 1000 \<Longrightarrow>
   0 \<le> ramp_toward inc t p \<and> ramp_toward inc t p \<le> 1000"
  using ramp_toward_up [of inc p t] ramp_toward_down [of inc t p] by linarith

lemma ramp_toward_dist:
  "0 \<le> inc \<Longrightarrow> \<bar>t - ramp_toward inc t p\<bar> = max 0 (\<bar>t - p\<bar> - inc)"
  by (auto simp: ramp_toward_def min_def max_def)

lemma update_ramp:
  assumes "rsc_ok r"
  shows "sint (ramp_output (fst (update r out)))
         = ramp_toward (sint (ramp_increment r)) (sint (desired_speed r)) (sint (ramp_output r))"
proof -
  let ?x = "ramp_toward (sint (ramp_increment r)) (sint (desired_speed r)) (sint (ramp_output r))"
  from assms have "0 \<le> ?x \<and> ?x \<le> 1000"
    unfolding rsc_ok_def by (intro ramp_toward_range) simp_all
  then have "sint (word_of_int ?x :: int16) = ?x"
    by (intro sint16_of_int) simp_all
  then show ?thesis by (simp add: update_def Let_def)
qed

lemma update_frame:
  "desired_speed (fst (update r out)) = desired_speed r"
  "ramp_increment (fst (update r out)) = ramp_increment r"
  "estimated_speed (fst (update r out)) = estimated_speed r"
  "critical_speed (fst (update r out)) = critical_speed r"
  "rsc_channel (fst (update r out)) = rsc_channel r"
  by (simp_all add: update_def Let_def)

lemma update_ok: "rsc_ok r \<Longrightarrow> rsc_ok (fst (update r out))"
  using ramp_toward_range [of "sint (ramp_increment r)" "sint (ramp_output r)" "sint (desired_speed r)"]
  by (simp add: rsc_ok_def [of "fst (update r out)"] update_ramp update_frame) (simp add: rsc_ok_def)

lemma set_desired_speed_ok:
  "0 \<le> sint (ramp_increment r) \<Longrightarrow> 0 \<le> sint (ramp_output r) \<Longrightarrow> sint (ramp_output r) \<le> 1000
   \<Longrightarrow> rsc_ok (set_desired_speed v r)"
  by (simp add: rsc_ok_def set_desired_speed_def)

lemma ticks_ok: "rsc_ok r \<Longrightarrow> rsc_ok (fst (ticks n r out))"
proof (induction n)
  case 0 then show ?case by simp
next
  case (Suc n)
  then show ?case
    using update_ok [of "fst (ticks n r out)" "snd (ticks n r out)"]
    by (simp add: case_prod_beta)
qed

lemma ticks_frame:
  "desired_speed (fst (ticks n r out)) = desired_speed r
   \<and> ramp_increment (fst (ticks n r out)) = ramp_increment r"
  by (induction n) (simp_all add: case_prod_beta update_frame)

lemma ramp_after_range:
  "rsc_ok r \<Longrightarrow> 0 \<le> ramp_after n r out \<and> ramp_after n r out \<le> 1000"
  using ticks_ok [of r n out] by (simp add: ramp_after_def rsc_ok_def)

lemma ramp_after_Suc:
  assumes "rsc_ok r"
  shows "ramp_after (Suc n) r out
         = ramp_toward (sint (ramp_increment r)) (sint (desired_speed r)) (ramp_after n r out)"
  unfolding ramp_after_def
  by (simp add: case_prod_beta update_ramp [OF ticks_ok [OF assms]] ticks_frame)

lemma ramp_after_dist:
  assumes "rsc_ok r"
  shows "\<bar>sint (desired_speed r) - ramp_after n r out\<bar>
         = max 0 (\<bar>sint (desired_speed r) - sint (ramp_output r)\<bar> - int n * sint (ramp_increment r))"
proof (induction n)
  case 0
  then show ?case by (simp add: ramp_after_def)
next
  case (Suc n)
  from assms have inc: "0 \<le> sint (ramp_increment r)" by (simp add: rsc_ok_def)
  show ?case
    using Suc inc
    by (simp add: ramp_after_Suc [OF assms] ramp_toward_dist algebra_simps)
qed

lemma ramp_after_hold:
  assumes "rsc_ok r" and "ramp_after n r out = sint (desired_speed r)"
  shows "ramp_after (n + k) r out = sint (desired_speed r)"
proof (induction k)
  case 0
  from assms(2) show ?case by simp
next
  case (Suc k)
  then show ?case
    by (simp add: ramp_after_Suc [OF assms(1)] ramp_toward_def)
qed

text \<open>
  C3: for every rotor speed controller in the documented ranges (the main rotor's and the
  tail rotor's alike), \<open>set_desired_speed\<close> and \<open>update\<close> keep it in these
  ranges, so the ramp position stays in 0 to 1000. With the desired speed fixed, after any
  number \<open>n\<close> of updates the next update moves the ramp position toward the desired
  speed and never past it; once the ramp position equals the desired speed it stays there
  for every later update; and with a positive increment it is there as soon as
  \<open>n\<close> increments cover the initial distance.
\<close>

theorem rsc_ramp_no_overshoot:
  assumes "rsc_ok r"
  shows "rsc_ok (set_desired_speed w r) \<and> rsc_ok (fst (update r out))
   \<and> 0 \<le> ramp_after n r out \<and> ramp_after n r out \<le> 1000
   \<and> desired_speed (fst (ticks n r out)) = desired_speed r
   \<and> (ramp_after n r out \<le> sint (desired_speed r) \<longrightarrow>
        ramp_after n r out \<le> ramp_after (Suc n) r out
        \<and> ramp_after (Suc n) r out \<le> sint (desired_speed r))
   \<and> (sint (desired_speed r) \<le> ramp_after n r out \<longrightarrow>
        sint (desired_speed r) \<le> ramp_after (Suc n) r out
        \<and> ramp_after (Suc n) r out \<le> ramp_after n r out)
   \<and> (ramp_after n r out = sint (desired_speed r) \<longrightarrow>
        ramp_after (n + k) r out = sint (desired_speed r))
   \<and> (0 < sint (ramp_increment r)
        \<and> \<bar>sint (desired_speed r) - sint (ramp_output r)\<bar> \<le> int n * sint (ramp_increment r) \<longrightarrow>
        ramp_after n r out = sint (desired_speed r))"
proof -
  from assms have inc: "0 \<le> sint (ramp_increment r)" by (simp add: rsc_ok_def)
  have range: "0 \<le> ramp_after n r out \<and> ramp_after n r out \<le> 1000"
    by (rule ramp_after_range [OF assms])
  have frame: "desired_speed (fst (ticks n r out)) = desired_speed r"
    by (simp add: ticks_frame)
  have up: "ramp_after n r out \<le> sint (desired_speed r) \<longrightarrow>
        ramp_after n r out \<le> ramp_after (Suc n) r out
        \<and> ramp_after (Suc n) r out \<le> sint (desired_speed r)"
    using ramp_toward_up [OF inc] by (simp only: ramp_after_Suc [OF assms]) blast
  have down: "sint (desired_speed r) \<le> ramp_after n r out \<longrightarrow>
        sint (desired_speed r) \<le> ramp_after (Suc n) r out
        \<and> ramp_after (Suc n) r out \<le> ramp_after n r out"
    using ramp_toward_down [OF inc] by (simp only: ramp_after_Suc [OF assms]) blast
  have hold: "ramp_after n r out = sint (desired_speed r) \<longrightarrow>
        ramp_after (n + k) r out = sint (desired_speed r)"
    using ramp_after_hold [OF assms] by blast
  have reach: "0 < sint (ramp_increment r)
        \<and> \<bar>sint (desired_speed r) - sint (ramp_output r)\<bar> \<le> int n * sint (ramp_increment r) \<longrightarrow>
        ramp_after n r out = sint (desired_speed r)"
    using ramp_after_dist [OF assms, of n out] by auto
  have inv: "rsc_ok (set_desired_speed w r) \<and> rsc_ok (fst (update r out))"
    using assms update_ok [OF assms, of out]
    by (simp add: set_desired_speed_ok rsc_ok_def [of r])
  from inv range frame up down hold reach show ?thesis by blast
qed

text \<open>
  The controller \<open>rsc0\<close> with the desired speed set to 12 and the increment 5: the
  ramp position is 10 after two updates, 12 after three and still 12 after four.
\<close>

theorem rsc_ramp_no_overshoot_witness:
  "rsc_ok (set_desired_speed 12 rsc0)
   \<and> ramp_after 2 (set_desired_speed 12 rsc0) Map.empty = 10
   \<and> ramp_after 3 (set_desired_speed 12 rsc0) Map.empty = 12
   \<and> ramp_after 4 (set_desired_speed 12 rsc0) Map.empty = 12"
proof -
  have ok: "rsc_ok (set_desired_speed 12 rsc0)"
    by (simp add: rsc_ok_def set_desired_speed_def rsc0_def)
  have two: "ramp_after 2 (set_desired_speed 12 rsc0) Map.empty = 10"
    by (simp add: ramp_after_def eval_nat_numeral update_def ramp_toward_def
        set_desired_speed_def rsc0_def)
  have inc: "sint (ramp_increment (set_desired_speed 12 rsc0)) = 5"
    and d: "sint (desired_speed (set_desired_speed 12 rsc0)) = 12"
    and p: "sint (ramp_output (set_desired_speed 12 rsc0)) = 0"
    by (simp_all add: set_desired_speed_def rsc0_def)
  from rsc_ramp_no_overshoot [OF ok, of 12 Map.empty 3 1] ok two show ?thesis
    by (simp add: inc d p)
qed

section \<open>The arming gate\<close>

text \<open>
  C2: \<^verbatim>\<open>allow_arming()\<close> is true only when the main rotor's estimated speed
  exceeds its critical speed or the rotor is configured to not require spin-up; when the
  estimate does not exceed the critical speed and spin-up is required, it is false. It
  leaves the state unchanged.
\<close>

theorem allow_arming_only_when:
  "(fst (allow_arming v) \<longrightarrow>
      sint (critical_speed (m_main_rotor (motors v)))
        < sint (estimated_speed (m_main_rotor (motors v)))
      \<or> \<not> m_spin_up_required (motors v))
   \<and> (\<not> sint (critical_speed (m_main_rotor (motors v)))
          < sint (estimated_speed (m_main_rotor (motors v)))
        \<and> m_spin_up_required (motors v) \<longrightarrow> \<not> fst (allow_arming v))
   \<and> snd (allow_arming v) = v"
  by (simp add: allow_arming_def get_critical_speed_def get_estimated_speed_def)

text \<open>
  With spin-up required and the critical speed 500: refused at the estimate 500, allowed
  at 501.
\<close>

theorem allow_arming_only_when_witness:
  "\<not> sint (critical_speed (m_main_rotor (motors (vehicle_at 500))))
        < sint (estimated_speed (m_main_rotor (motors (vehicle_at 500))))
   \<and> m_spin_up_required (motors (vehicle_at 500))
   \<and> \<not> fst (allow_arming (vehicle_at 500))
   \<and> fst (allow_arming (vehicle_at 501))
   \<and> sint (critical_speed (m_main_rotor (motors (vehicle_at 501))))
        < sint (estimated_speed (m_main_rotor (motors (vehicle_at 501))))"
proof -
  have a: "fst (allow_arming (vehicle_at 501))"
    by (simp add: allow_arming_def get_critical_speed_def get_estimated_speed_def
        vehicle_at_def vehicle0_def heli0_def rsc0_def)
  from allow_arming_only_when [of "vehicle_at 500"] allow_arming_only_when [of "vehicle_at 501"] a
  show ?thesis
    by (simp add: vehicle_at_def vehicle0_def heli0_def rsc0_def)
qed

section \<open>The tail control law\<close>

lemma tail_variant_of_unknown:
  "sint t \<notin> {0, 1, 2, 3} \<Longrightarrow> tail_variant_of t = Servo"
  by (simp add: tail_variant_of_def AP_MOTORS_HELI_SINGLE_TAILTYPE_SERVO_EXTGYRO_def
      AP_MOTORS_HELI_SINGLE_TAILTYPE_DIRECTDRIVE_VARPITCH_def
      AP_MOTORS_HELI_SINGLE_TAILTYPE_DIRECTDRIVE_FIXEDPITCH_def)

lemma tail_variant_of_servo: "tail_variant_of 0 = Servo"
  by (simp add: tail_variant_of_def AP_MOTORS_HELI_SINGLE_TAILTYPE_SERVO_EXTGYRO_def
      AP_MOTORS_HELI_SINGLE_TAILTYPE_DIRECTDRIVE_VARPITCH_def
      AP_MOTORS_HELI_SINGLE_TAILTYPE_DIRECTDRIVE_FIXEDPITCH_def)

text \<open>
  C5: for every tail type value that is none of the four recognised ones, the tail
  control law does what it does for the plain servo: the same actuator command, the same
  output channels and the same object (the tail type itself apart). The command is the
  clamped sum of the yaw command and the collective feed-forward, written to the tail
  servo; the law returns a value for every input.
\<close>

theorem move_yaw_unknown_tail_type:
  assumes "sint t \<notin> {AP_MOTORS_HELI_SINGLE_TAILTYPE_SERVO,
                      AP_MOTORS_HELI_SINGLE_TAILTYPE_SERVO_EXTGYRO,
                      AP_MOTORS_HELI_SINGLE_TAILTYPE_DIRECTDRIVE_VARPITCH,
                      AP_MOTORS_HELI_SINGLE_TAILTYPE_DIRECTDRIVE_FIXEDPITCH}"
  shows "fst (move_yaw lo hi y ff (v\<lparr>motors := (motors v)\<lparr>m_tail_type := t\<rparr>\<rparr>))
           = fst (move_yaw lo hi y ff (v\<lparr>motors := (motors v)\<lparr>m_tail_type := 0\<rparr>\<rparr>))
   \<and> outputs (snd (move_yaw lo hi y ff (v\<lparr>motors := (motors v)\<lparr>m_tail_type := t\<rparr>\<rparr>)))
           = outputs (snd (move_yaw lo hi y ff (v\<lparr>motors := (motors v)\<lparr>m_tail_type := 0\<rparr>\<rparr>)))
   \<and> motors (snd (move_yaw lo hi y ff (v\<lparr>motors := (motors v)\<lparr>m_tail_type := t\<rparr>\<rparr>)))
           = (motors (snd (move_yaw lo hi y ff (v\<lparr>motors := (motors v)\<lparr>m_tail_type := 0\<rparr>\<rparr>))))
               \<lparr>m_tail_type := t\<rparr>
   \<and> fst (move_yaw lo hi y ff (v\<lparr>motors := (motors v)\<lparr>m_tail_type := t\<rparr>\<rparr>))
           = word_of_int (constrain lo hi (sint y + sint ff))
   \<and> outputs (snd (move_yaw lo hi y ff (v\<lparr>motors := (motors v)\<lparr>m_tail_type := t\<rparr>\<rparr>))) SERVO_4
           = Some (word_of_int (constrain lo hi (sint y + sint ff)))"
proof -
  from assms have "tail_variant_of t = Servo"
    by (intro tail_variant_of_unknown)
       (simp add: AP_MOTORS_HELI_SINGLE_TAILTYPE_SERVO_def
          AP_MOTORS_HELI_SINGLE_TAILTYPE_SERVO_EXTGYRO_def
          AP_MOTORS_HELI_SINGLE_TAILTYPE_DIRECTDRIVE_VARPITCH_def
          AP_MOTORS_HELI_SINGLE_TAILTYPE_DIRECTDRIVE_FIXEDPITCH_def)
  then show ?thesis
    by (simp add: move_yaw_def Let_def tail_variant_of_servo)
qed

text \<open>The unknown tail type 7 with the yaw command 500: the tail servo gets 500.\<close>

theorem move_yaw_unknown_tail_type_witness:
  "sint (7 :: int16) \<notin> {AP_MOTORS_HELI_SINGLE_TAILTYPE_SERVO,
                      AP_MOTORS_HELI_SINGLE_TAILTYPE_SERVO_EXTGYRO,
                      AP_MOTORS_HELI_SINGLE_TAILTYPE_DIRECTDRIVE_VARPITCH,
                      AP_MOTORS_HELI_SINGLE_TAILTYPE_DIRECTDRIVE_FIXEDPITCH}
   \<and> fst (move_yaw (- 1000) 1000 500 0 (vehicle0\<lparr>motors := (motors vehicle0)\<lparr>m_tail_type := 7\<rparr>\<rparr>))
       = 500
   \<and> outputs (snd (move_yaw (- 1000) 1000 500 0
        (vehicle0\<lparr>motors := (motors vehicle0)\<lparr>m_tail_type := 7\<rparr>\<rparr>))) SERVO_4 = Some 500"
proof -
  have unknown: "sint (7 :: int16) \<notin> {AP_MOTORS_HELI_SINGLE_TAILTYPE_SERVO,
                      AP_MOTORS_HELI_SINGLE_TAILTYPE_SERVO_EXTGYRO,
                      AP_MOTORS_HELI_SINGLE_TAILTYPE_DIRECTDRIVE_VARPITCH,
                      AP_MOTORS_HELI_SINGLE_TAILTYPE_DIRECTDRIVE_FIXEDPITCH}"
    by (simp add: AP_MOTORS_HELI_SINGLE_TAILTYPE_SERVO_def
          AP_MOTORS_HELI_SINGLE_TAILTYPE_SERVO_EXTGYRO_def
          AP_MOTORS_HELI_SINGLE_TAILTYPE_DIRECTDRIVE_VARPITCH_def
          AP_MOTORS_HELI_SINGLE_TAILTYPE_DIRECTDRIVE_FIXEDPITCH_def)
  have cmd: "word_of_int (constrain (- 1000) 1000 (sint (500 :: int16) + sint (0 :: int16)))
               = (500 :: int16)"
    by (simp add: constrain_def)
  note law = move_yaw_unknown_tail_type [OF unknown, of "- 1000" 1000 500 0 vehicle0,
      unfolded cmd]
  from law have "fst (move_yaw (- 1000) 1000 500 0
        (vehicle0\<lparr>motors := (motors vehicle0)\<lparr>m_tail_type := 7\<rparr>\<rparr>)) = 500"
    by blast
  moreover from law have "outputs (snd (move_yaw (- 1000) 1000 500 0
        (vehicle0\<lparr>motors := (motors vehicle0)\<lparr>m_tail_type := 7\<rparr>\<rparr>))) SERVO_4 = Some 500"
    by blast
  ultimately show ?thesis using unknown by blast
qed

end
